theory Spec2Isabelle
  imports Main
begin

section \<open>The S3 upload logger (src/lambda/s3\_upload\_logger.py)\<close>

text \<open>
  The handler receives an event decoded from JSON, walks over its records, logs each
  one and answers with a summary. The embedding keeps the three functions of the module
  (\<open>lambda_handler\<close>, \<open>format_size\<close>, \<open>categorize_file\<close>) under their names. Python
  exceptions are values of the type \<open>exn\<close>; a computation that may raise returns
  \<open>exn + 'a\<close>, with \<open>Inl\<close> for the exception.
\<close>

subsection \<open>Values\<close>

text \<open>
  A Python \<open>float\<close> is a binary64 value. \<open>Finite m e\<close> stands for the number
  \<open>m * 2 ^ e\<close>; the other three constructors are the infinities and not-a-number.
\<close>

datatype pyfloat = Finite int int | PosInf | NegInf | NaN

text \<open>
  What \<open>json.loads\<close> builds: \<open>None\<close>, \<open>bool\<close>, \<open>int\<close> (unbounded), \<open>float\<close>,
  \<open>str\<close>, \<open>list\<close> and \<open>dict\<close>. A dict keeps its insertion order and is an association
  list here (its keys are distinct); a \<open>str\<close> is a list of characters, each a code point
  below 256.
\<close>

datatype json =
    JNull
  | JBool bool
  | JInt int
  | JFloat pyfloat
  | JStr string
  | JArr "json list"
  | JObj "(string \<times> json) list"

datatype exn = AttributeError | TypeError | ValueError | OverflowError

definition bind_exn :: "exn + 'a \<Rightarrow> ('a \<Rightarrow> exn + 'b) \<Rightarrow> exn + 'b" where
  "bind_exn m f = (case m of Inl e \<Rightarrow> Inl e | Inr x \<Rightarrow> f x)"

text \<open>\<open>x.get(key, default)\<close>: only a dict has the method.\<close>

fun py_get :: "json \<Rightarrow> string \<Rightarrow> json \<Rightarrow> exn + json" where
  "py_get (JObj kvs) key dflt = Inr (case map_of kvs key of None \<Rightarrow> dflt | Some v \<Rightarrow> v)"
| "py_get _ key dflt = Inl AttributeError"

text \<open>\<open>for record in x\<close>: a list gives its items, a str its characters, a dict its keys.\<close>

fun py_iter :: "json \<Rightarrow> exn + json list" where
  "py_iter (JArr xs) = Inr xs"
| "py_iter (JStr s) = Inr (map (\<lambda>c. JStr [c]) s)"
| "py_iter (JObj kvs) = Inr (map (\<lambda>kv. JStr (fst kv)) kvs)"
| "py_iter _ = Inl TypeError"

text \<open>\<open>'.' in x\<close>: substring test on a str, membership on a list, key test on a dict.\<close>

fun py_contains_dot :: "json \<Rightarrow> exn + bool" where
  "py_contains_dot (JStr s) = Inr (CHR ''.'' \<in> set s)"
| "py_contains_dot (JArr xs) = Inr (JStr ''.'' \<in> set xs)"
| "py_contains_dot (JObj kvs) = Inr (''.'' \<in> set (map fst kvs))"
| "py_contains_dot _ = Inl TypeError"

subsection \<open>Strings\<close>

text \<open>
  \<open>str.lower\<close> on code points below 256: the ASCII capitals and the Latin-1 capitals
  (\<open>0xC0\<close> to \<open>0xDE\<close>, the multiplication sign \<open>0xD7\<close> apart) move up by 32.
\<close>

definition lower_char :: "char \<Rightarrow> char" where
  "lower_char c =
     (let n = (of_char c :: nat)
      in if (65 \<le> n \<and> n \<le> 90) \<or> (192 \<le> n \<and> n \<le> 222 \<and> n \<noteq> 215)
         then char_of (n + 32) else c)"

definition py_lower :: "string \<Rightarrow> string" where
  "py_lower s = map lower_char s"

text \<open>\<open>s.split(sep)\<close> for a one-character separator; the result is never empty.\<close>

fun py_split :: "char \<Rightarrow> string \<Rightarrow> string list" where
  "py_split sep [] = [[]]"
| "py_split sep (c # cs) =
     (if c = sep then [] # py_split sep cs
      else (case py_split sep cs of [] \<Rightarrow> [[c]] | w # ws \<Rightarrow> (c # w) # ws))"

subsection \<open>Numbers and their formatting\<close>

definition digit_char :: "nat \<Rightarrow> char" where
  "digit_char d = ''0123456789'' ! d"

fun digits :: "nat \<Rightarrow> string" where
  "digits n = (if n < 10 then [digit_char n] else digits (n div 10) @ [digit_char (n mod 10)])"

declare digits.simps [simp del]

text \<open>The integer nearest to \<open>a / d\<close>, a tie going to the even neighbour.\<close>

definition round_half_even :: "nat \<Rightarrow> nat \<Rightarrow> nat" where
  "round_half_even a d =
     (let q = a div d; r = a mod d
      in if 2 * r < d then q
         else if d < 2 * r then q + 1
         else if even q then q else q + 1)"

text \<open>\<open>int.bit_length\<close>.\<close>

fun bit_length :: "nat \<Rightarrow> nat" where
  "bit_length n = (if n = 0 then 0 else Suc (bit_length (n div 2)))"

declare bit_length.simps [simp del]

text \<open>
  The binary64 value nearest to an integer, before the range check: integers of at most
  53 bits are exact, longer ones are rounded to 53 significant bits (ties to even).
\<close>

definition round53 :: "int \<Rightarrow> int" where
  "round53 x =
     (let a = nat \<bar>x\<bar>; l = bit_length a
      in if l \<le> 53 then x
         else sgn x * int (round_half_even a (2 ^ (l - 53)) * 2 ^ (l - 53)))"

text \<open>\<open>float(x)\<close> for an int, as \<open>format\<close> does for the presentation type \<open>f\<close>.\<close>

definition float_of_int :: "int \<Rightarrow> exn + pyfloat" where
  "float_of_int x =
     (if 2 ^ 1024 \<le> \<bar>round53 x\<bar> then Inl OverflowError else Inr (Finite (round53 x) 0))"

text \<open>
  \<open>x / 1024\<close> for an int \<open>x\<close>: the correctly rounded quotient, or OverflowError when it
  is beyond the largest float.
\<close>

definition int_div_1024 :: "int \<Rightarrow> exn + pyfloat" where
  "int_div_1024 x =
     (if 2 ^ 1034 \<le> \<bar>round53 x\<bar> then Inl OverflowError else Inr (Finite (round53 x) (- 10)))"

text \<open>\<open>v / 1024\<close> for a float: a change of exponent (the loop divides values from 1024 up).\<close>

fun float_div_1024 :: "pyfloat \<Rightarrow> pyfloat" where
  "float_div_1024 (Finite m e) = Finite m (e - 10)"
| "float_div_1024 v = v"

fun float_ge_1024 :: "pyfloat \<Rightarrow> bool" where
  "float_ge_1024 (Finite m e) =
     (if 0 \<le> e then 1024 \<le> m * 2 ^ nat e else 1024 * 2 ^ nat (- e) \<le> m)"
| "float_ge_1024 PosInf = True"
| "float_ge_1024 NegInf = False"
| "float_ge_1024 NaN = False"

text \<open>\<open>f"{v:.2f}"\<close> for a float: the exact value rounded to hundredths, ties to even.\<close>

fun float_format_2f :: "pyfloat \<Rightarrow> string" where
  "float_format_2f (Finite m e) =
     (let a = nat \<bar>m\<bar>;
          h = (if 0 \<le> e then 100 * a * 2 ^ nat e
               else round_half_even (100 * a) (2 ^ nat (- e)))
      in (if m < 0 then ''-'' else '''') @ digits (h div 100) @ ''.'' @
         [digit_char (h mod 100 div 10), digit_char (h mod 10)])"
| "float_format_2f PosInf = ''inf''"
| "float_format_2f NegInf = ''-inf''"
| "float_format_2f NaN = ''nan''"

text \<open>\<open>size_bytes == 0\<close>, \<open>size_bytes >= 1024\<close>, \<open>size_bytes / 1024\<close> and the format
  specification \<open>.2f\<close> on a value of any type.\<close>

fun py_eq_zero :: "json \<Rightarrow> bool" where
  "py_eq_zero (JInt n) = (n = 0)"
| "py_eq_zero (JBool b) = (b = False)"
| "py_eq_zero (JFloat (Finite m e)) = (m = 0)"
| "py_eq_zero _ = False"

fun py_ge_1024 :: "json \<Rightarrow> exn + bool" where
  "py_ge_1024 (JInt n) = Inr (1024 \<le> n)"
| "py_ge_1024 (JBool b) = Inr False"
| "py_ge_1024 (JFloat v) = Inr (float_ge_1024 v)"
| "py_ge_1024 _ = Inl TypeError"

fun py_div_1024 :: "json \<Rightarrow> exn + json" where
  "py_div_1024 (JInt n) = map_sum id JFloat (int_div_1024 n)"
| "py_div_1024 (JBool b) = Inr (JFloat (Finite (if b then 1 else 0) (- 10)))"
| "py_div_1024 (JFloat v) = Inr (JFloat (float_div_1024 v))"
| "py_div_1024 _ = Inl TypeError"

fun py_format_2f :: "json \<Rightarrow> exn + string" where
  "py_format_2f (JInt n) = map_sum id float_format_2f (float_of_int n)"
| "py_format_2f (JBool b) = Inr (float_format_2f (Finite (if b then 1 else 0) 0))"
| "py_format_2f (JFloat v) = Inr (float_format_2f v)"
| "py_format_2f (JStr s) = Inl ValueError"
| "py_format_2f _ = Inl TypeError"

subsection \<open>\<open>format_size\<close>\<close>

definition size_names :: "string list" where
  "size_names = [''B'', ''KB'', ''MB'', ''GB'', ''TB'']"

text \<open>The \<open>while\<close> loop of \<open>format_size\<close>, on the pair \<open>(size_bytes, i)\<close>.\<close>

function size_loop :: "json \<Rightarrow> nat \<Rightarrow> exn + (json \<times> nat)" where
  "size_loop size_bytes i =
     (case py_ge_1024 size_bytes of
        Inl e \<Rightarrow> Inl e
      | Inr ge \<Rightarrow>
          if ge \<and> i < length size_names - 1
          then (case py_div_1024 size_bytes of
                  Inl e \<Rightarrow> Inl e
                | Inr size_bytes' \<Rightarrow> size_loop size_bytes' (i + 1))
          else Inr (size_bytes, i))"
  by pat_completeness auto
termination
  by (relation "measure (\<lambda>(v, i). length size_names - 1 - i)") auto

declare size_loop.simps [simp del]

definition format_size :: "json \<Rightarrow> exn + string" where
  "format_size size_bytes =
     (if py_eq_zero size_bytes then Inr ''0 B''
      else bind_exn (size_loop size_bytes 0) (\<lambda>(v, i).
           bind_exn (py_format_2f v) (\<lambda>s.
           Inr (s @ '' '' @ size_names ! i))))"

subsection \<open>\<open>categorize_file\<close>\<close>

definition categories :: "(string \<times> string list) list" where
  "categories =
     [(''resume'', [''pdf'', ''doc'', ''docx'', ''txt'', ''rtf'', ''odt'']),
      (''image'', [''jpg'', ''jpeg'', ''png'', ''gif'', ''webp'', ''svg'', ''bmp'', ''ico'']),
      (''data'', [''csv'', ''xlsx'', ''xls'', ''json'', ''xml'', ''yaml'', ''yml'']),
      (''archive'', [''zip'', ''tar'', ''gz'', ''rar'', ''7z'']),
      (''video'', [''mp4'', ''avi'', ''mov'', ''mkv'', ''webm'']),
      (''audio'', [''mp3'', ''wav'', ''flac'', ''aac'', ''ogg''])]"

text \<open>The \<open>for\<close> loop over \<open>categories.items()\<close>, in insertion order.\<close>

fun categorize_loop :: "(string \<times> string list) list \<Rightarrow> string \<Rightarrow> string" where
  "categorize_loop [] extension = ''other''"
| "categorize_loop ((category, extensions) # rest) extension =
     (if py_lower extension \<in> set extensions then category
      else categorize_loop rest extension)"

definition categorize_file :: "string \<Rightarrow> string" where
  "categorize_file extension = categorize_loop categories extension"

subsection \<open>\<open>lambda_handler\<close>\<close>

text \<open>
  The dict \<open>log_entry\<close> built for each record, the dict appended to
  \<open>processed_records\<close>, and the response. The body of the response is the dict the
  handler hands to \<open>json.dumps\<close>; its rendering as text is left out.
\<close>

record log_entry =
  timestamp :: json
  project :: string
  environment :: string
  event_type :: json
  bucket :: json
  object_key :: json
  object_size_bytes :: json
  object_size_readable :: string
  source_ip :: json
  user_identity :: json

record processed =
  bucket :: json
  key :: json
  category :: string

record body =
  message :: string
  records_processed :: nat
  details :: "processed list"

record response =
  statusCode :: int
  body :: body

text \<open>
  A log line is kept as its level, the text of its format and the values the format
  interpolates.
\<close>

datatype level = INFO | ERROR

datatype log_line =
    EventReceived string
  | FullEvent json
  | Rule
  | Heading
  | Timestamp json
  | Bucket json
  | ObjectKey json
  | Size string json
  | EventType json
  | SourceIP json
  | FileCategory string
  | FileExtension string
  | ErrorProcessingRecord exn
  | RecordDump json
  | LambdaResponse response

type_synonym log = "(level \<times> log_line) list"

text \<open>\<open>os.environ.get(name, default)\<close>.\<close>

definition environ_get :: "(string \<rightharpoonup> string) \<Rightarrow> string \<Rightarrow> string \<Rightarrow> string" where
  "environ_get environ name dflt = (case environ name of None \<Rightarrow> dflt | Some v \<Rightarrow> v)"

text \<open>
  Lines 45 to 64: the extraction of the fields and the dict \<open>log_entry\<close>. \<open>now\<close> is
  what \<open>datetime.now().isoformat()\<close> returns when the record is reached.
\<close>

definition extract_log_entry ::
  "(string \<rightharpoonup> string) \<Rightarrow> string \<Rightarrow> json \<Rightarrow> exn + log_entry" where
  "extract_log_entry environ now record =
     bind_exn (py_get record ''s3'' (JObj [])) (\<lambda>s3_info.
     bind_exn (py_get s3_info ''bucket'' (JObj [])) (\<lambda>b.
     bind_exn (py_get b ''name'' (JStr ''Unknown'')) (\<lambda>bucket_name.
     bind_exn (py_get s3_info ''object'' (JObj [])) (\<lambda>ob.
     bind_exn (py_get ob ''key'' (JStr ''Unknown'')) (\<lambda>object_key.
     bind_exn (py_get s3_info ''object'' (JObj [])) (\<lambda>ob'.
     bind_exn (py_get ob' ''size'' (JInt 0)) (\<lambda>object_size.
     bind_exn (py_get record ''eventTime'' (JStr now)) (\<lambda>event_time.
     bind_exn (py_get record ''eventName'' (JStr ''Unknown'')) (\<lambda>event_name.
     bind_exn (format_size object_size) (\<lambda>readable.
     bind_exn (py_get record ''requestParameters'' (JObj [])) (\<lambda>rp.
     bind_exn (py_get rp ''sourceIPAddress'' (JStr ''Unknown'')) (\<lambda>ip.
     bind_exn (py_get record ''userIdentity'' (JObj [])) (\<lambda>ui.
     bind_exn (py_get ui ''principalId'' (JStr ''Unknown'')) (\<lambda>principal.
     Inr \<lparr>timestamp = event_time,
          project = environ_get environ ''PROJECT_NAME'' ''job-portal'',
          environment = environ_get environ ''ENVIRONMENT'' ''dev'',
          event_type = event_name,
          log_entry.bucket = bucket_name,
          object_key = object_key,
          object_size_bytes = object_size,
          object_size_readable = readable,
          source_ip = ip,
          user_identity = principal\<rparr>))))))))))))))"

text \<open>Line 78: the extension of the object key.\<close>

definition file_extension :: "json \<Rightarrow> exn + string" where
  "file_extension obj_key =
     bind_exn (py_contains_dot obj_key) (\<lambda>has_dot.
       if has_dot
       then (case obj_key of
               JStr s \<Rightarrow> Inr (py_lower (last (py_split CHR ''.'' s)))
             | _ \<Rightarrow> Inl AttributeError)
       else Inr ''unknown'')"

text \<open>
  The body of the \<open>try\<close> block for one record: the lines it logs, and either the
  exception that ended it or the dict it appends to \<open>processed_records\<close>.
\<close>

definition process_record ::
  "(string \<rightharpoonup> string) \<Rightarrow> string \<Rightarrow> json \<Rightarrow> log \<times> (exn + processed)" where
  "process_record environ now record =
     (case extract_log_entry environ now record of
        Inl e \<Rightarrow> ([], Inl e)
      | Inr le \<Rightarrow>
          (let shown =
                 [(INFO, Rule), (INFO, Heading), (INFO, Rule),
                  (INFO, Timestamp (timestamp le)),
                  (INFO, Bucket (log_entry.bucket le)),
                  (INFO, ObjectKey (object_key le)),
                  (INFO, Size (object_size_readable le) (object_size_bytes le)),
                  (INFO, EventType (event_type le)),
                  (INFO, SourceIP (source_ip le))]
           in case file_extension (object_key le) of
                Inl e \<Rightarrow> (shown, Inl e)
              | Inr ext \<Rightarrow>
                  (shown @
                   [(INFO, FileCategory (categorize_file ext)),
                    (INFO, FileExtension ext),
                    (INFO, Rule)],
                   Inr \<lparr>bucket = log_entry.bucket le,
                        key = object_key le,
                        category = categorize_file ext\<rparr>)))"

text \<open>
  The \<open>for\<close> loop with its \<open>except\<close> clause, on the state it changes: the log and
  \<open>processed_records\<close>. \<open>clock i\<close> is the time read while record \<open>i\<close> is processed.
\<close>

fun process_records ::
  "(string \<rightharpoonup> string) \<Rightarrow> (nat \<Rightarrow> string) \<Rightarrow> nat \<Rightarrow> json list \<Rightarrow>
   log \<times> processed list \<Rightarrow> log \<times> processed list" where
  "process_records environ clock i [] st = st"
| "process_records environ clock i (record # rest) (lg, processed_records) =
     (case process_record environ (clock i) record of
        (lines, Inr p) \<Rightarrow>
          process_records environ clock (Suc i) rest (lg @ lines, processed_records @ [p])
      | (lines, Inl e) \<Rightarrow>
          process_records environ clock (Suc i) rest
            (lg @ lines @ [(ERROR, ErrorProcessingRecord e), (ERROR, RecordDump record)],
             processed_records))"

text \<open>
  The handler: the log it writes and either the exception it raises or the response it
  returns.
\<close>

definition lambda_handler ::
  "(string \<rightharpoonup> string) \<Rightarrow> (nat \<Rightarrow> string) \<Rightarrow> json \<Rightarrow> log \<times> (exn + response)" where
  "lambda_handler environ clock event =
     (let project_name = environ_get environ ''PROJECT_NAME'' ''job-portal'';
          received = [(INFO, EventReceived project_name), (INFO, FullEvent event)]
      in case bind_exn (py_get event ''Records'' (JArr [])) py_iter of
           Inl e \<Rightarrow> (received, Inl e)
         | Inr records \<Rightarrow>
             (case process_records environ clock 0 records (received, []) of
                (lg, processed_records) \<Rightarrow>
                  (let response =
                         \<lparr>statusCode = 200,
                          body = \<lparr>message = ''S3 upload event(s) logged successfully'',
                                  records_processed = length processed_records,
                                  details = processed_records\<rparr>\<rparr>
                   in (lg @ [(INFO, LambdaResponse response)], Inr response))))"

subsection \<open>Notions used in the statements\<close>

text \<open>
  \<open>json_field path v\<close> is the value found in \<open>v\<close> under a path of dict keys, \<open>None\<close>
  when a key of the path is missing; \<open>field_or\<close> puts a default in the place of a missing
  value, as \<open>get\<close> does. \<open>dict_or_absent path v\<close> says that the value under the path is a
  dict when it is there at all. \<open>entry_of record\<close> is the dict the handler appends for a
  record it gets through, and a record is \<open>malformed\<close> when its \<open>try\<close> block raises.
\<close>

fun is_dict :: "json \<Rightarrow> bool" where
  "is_dict (JObj kvs) = True"
| "is_dict _ = False"

fun json_field :: "string list \<Rightarrow> json \<Rightarrow> json option" where
  "json_field [] v = Some v"
| "json_field (k # ks) (JObj kvs) =
     (case map_of kvs k of None \<Rightarrow> None | Some v \<Rightarrow> json_field ks v)"
| "json_field (k # ks) _ = None"

definition field_or :: "string list \<Rightarrow> json \<Rightarrow> json \<Rightarrow> json" where
  "field_or path dflt v = (case json_field path v of None \<Rightarrow> dflt | Some w \<Rightarrow> w)"

definition dict_or_absent :: "string list \<Rightarrow> json \<Rightarrow> bool" where
  "dict_or_absent path v = (case json_field path v of None \<Rightarrow> True | Some w \<Rightarrow> is_dict w)"

definition entry_of :: "json \<Rightarrow> processed" where
  "entry_of record =
     (let k = field_or [''s3'', ''object'', ''key''] (JStr ''Unknown'') record
      in \<lparr>bucket = field_or [''s3'', ''bucket'', ''name''] (JStr ''Unknown'') record,
          key = k,
          category = (case file_extension k of
                        Inl e \<Rightarrow> ''other'' | Inr ext \<Rightarrow> categorize_file ext)\<rparr>)"

definition malformed :: "json \<Rightarrow> bool" where
  "malformed record = isl (snd (process_record Map.empty [] record))"

text \<open>The sample event of the module's \<open>__main__\<close> block.\<close>

definition test_record :: json where
  "test_record =
     JObj [(''eventTime'', JStr ''2024-12-01T12:00:00.000Z''),
           (''eventName'', JStr ''ObjectCreated:Put''),
           (''s3'', JObj [(''bucket'', JObj [(''name'', JStr ''job-portal-dev-files'')]),
                         (''object'', JObj [(''key'', JStr ''resumes/john_doe_resume.pdf''),
                                           (''size'', JInt 1024567)])]),
           (''requestParameters'', JObj [(''sourceIPAddress'', JStr ''192.168.1.100'')]),
           (''userIdentity'', JObj [(''principalId'', JStr ''EXAMPLE123'')])]"

definition test_event :: json where
  "test_event = JObj [(''Records'', JArr [test_record])]"

section \<open>Evaluation and helper lemmas\<close>

lemmas format_size_eval =
  format_size_def bind_exn_def size_loop.simps size_names_def float_of_int_def
  int_div_1024_def round53_def bit_length.simps round_half_even_def digits.simps
  digit_char_def Let_def

lemma lower_char_idem: "lower_char (lower_char c) = lower_char c"
  by (auto simp: lower_char_def Let_def)

lemma py_lower_idem: "py_lower (py_lower s) = py_lower s"
  by (simp add: py_lower_def lower_char_idem)

lemma py_lower_PDF: "py_lower ''PDF'' = ''pdf''"
  by (simp add: py_lower_def lower_char_def char_of_def bit_Suc_0_iff)

lemma py_lower_pdf: "py_lower ''pdf'' = ''pdf''"
  by (simp add: py_lower_def lower_char_def)

lemma categorize_file_chain:
  "categorize_file e =
     (if py_lower e \<in> set [''pdf'', ''doc'', ''docx'', ''txt'', ''rtf'', ''odt''] then ''resume''
      else if py_lower e \<in> set [''jpg'', ''jpeg'', ''png'', ''gif'', ''webp'', ''svg'', ''bmp'', ''ico'']
        then ''image''
      else if py_lower e \<in> set [''csv'', ''xlsx'', ''xls'', ''json'', ''xml'', ''yaml'', ''yml'']
        then ''data''
      else if py_lower e \<in> set [''zip'', ''tar'', ''gz'', ''rar'', ''7z''] then ''archive''
      else if py_lower e \<in> set [''mp4'', ''avi'', ''mov'', ''mkv'', ''webm''] then ''video''
      else if py_lower e \<in> set [''mp3'', ''wav'', ''flac'', ''aac'', ''ogg''] then ''audio''
      else ''other'')"
  unfolding categorize_file_def categories_def categorize_loop.simps by (rule refl)

lemma bit_length_le_iff: "bit_length a \<le> n \<longleftrightarrow> a < 2 ^ n"
proof (induction a arbitrary: n rule: bit_length.induct)
  case (1 a)
  show ?case
  proof (cases "a = 0")
    case True
    then show ?thesis by (simp add: bit_length.simps)
  next
    case False
    show ?thesis
    proof (cases n)
      case 0
      with False show ?thesis by (simp add: bit_length.simps)
    next
      case (Suc m)
      have "bit_length a \<le> Suc m \<longleftrightarrow> bit_length (a div 2) \<le> m"
        using False by (simp add: bit_length.simps[of a])
      also have "\<dots> \<longleftrightarrow> a div 2 < 2 ^ m"
        using "1.IH"[OF False] by simp
      also have "\<dots> \<longleftrightarrow> a < 2 ^ Suc m"
        by auto
      finally show ?thesis using Suc by simp
    qed
  qed
qed

lemma bit_length_pow: "a < 2 ^ bit_length a"
  using bit_length_le_iff[of a "bit_length a"] by simp

lemma bit_length_lower: "0 < bit_length a \<Longrightarrow> 2 ^ (bit_length a - 1) \<le> a"
  using bit_length_le_iff[of a "bit_length a - 1"] by (cases "a < 2 ^ (bit_length a - 1)") auto

lemma round_half_even_bounds:
  "a div d \<le> round_half_even a d \<and> round_half_even a d \<le> a div d + 1"
  by (simp add: round_half_even_def Let_def)

text \<open>Rounding a number of more than p bits to p significant bits.\<close>

lemma round_bits_bounds:
  assumes "p < bit_length a" and "0 < p"
  shows "2 ^ (bit_length a - 1) \<le> round_half_even a (2 ^ (bit_length a - p)) * 2 ^ (bit_length a - p)"
    and "round_half_even a (2 ^ (bit_length a - p)) * 2 ^ (bit_length a - p) \<le> 2 ^ bit_length a"
proof -
  define l where "l = bit_length a"
  define s where "s = l - p"
  have ls: "l = p + s" using assms(1) by (simp add: s_def l_def)
  have lo: "2 ^ (l - 1) \<le> a" using bit_length_lower[of a] assms unfolding l_def by simp
  have hi: "a < 2 ^ l" using bit_length_pow[of a] unfolding l_def .
  have "l - 1 = (p - 1) + s" using ls assms(2) by simp
  then have pl1: "(2::nat) ^ (l - 1) = 2 ^ (p - 1) * 2 ^ s" by (simp only: power_add)
  then have "2 ^ (p - 1) * 2 ^ s \<le> a" using lo by simp
  then have q_lo: "2 ^ (p - 1) \<le> a div 2 ^ s"
    by (simp add: less_eq_div_iff_mult_less_eq)
  have pl: "(2::nat) ^ l = 2 ^ p * 2 ^ s" using ls by (simp only: power_add)
  then have "a < 2 ^ p * 2 ^ s" using hi by simp
  then have q_hi: "a div 2 ^ s < 2 ^ p"
    by (simp add: less_mult_imp_div_less)
  have rl: "2 ^ (p - 1) \<le> round_half_even a (2 ^ s)"
    using round_half_even_bounds[of a "2 ^ s"] q_lo by linarith
  have "(2::nat) ^ (p - 1) * 2 ^ s \<le> round_half_even a (2 ^ s) * 2 ^ s"
    using rl by (intro mult_le_mono) auto
  then show "2 ^ (bit_length a - 1) \<le> round_half_even a (2 ^ (bit_length a - p)) * 2 ^ (bit_length a - p)"
    unfolding pl1[symmetric] unfolding s_def l_def .
  have "round_half_even a (2 ^ s) \<le> 2 ^ p"
    using round_half_even_bounds[of a "2 ^ s"] q_hi by linarith
  then have "round_half_even a (2 ^ s) * 2 ^ s \<le> 2 ^ p * 2 ^ s"
    by (intro mult_le_mono) auto
  then show "round_half_even a (2 ^ (bit_length a - p)) * 2 ^ (bit_length a - p) \<le> 2 ^ bit_length a"
    unfolding pl[symmetric] unfolding s_def l_def .
qed


lemma nat_ge_pow53: "0 < x \<Longrightarrow> ((2::nat) ^ 53 \<le> nat x) = (2 ^ 53 \<le> x)"
proof -
  assume "0 < x"
  then have "int (nat x) = x" by simp
  then have "(2 ^ 53 \<le> x) = ((2::int) ^ 53 \<le> int (nat x))" by simp
  also have "\<dots> = ((2::nat) ^ 53 \<le> nat x)"
    by (simp only: numeral_power_le_of_nat_cancel_iff)
  finally show ?thesis by simp
qed

lemma round53_small: "\<bar>x\<bar> < 2 ^ 53 \<Longrightarrow> round53 x = x"
proof -
  assume a: "\<bar>x\<bar> < 2 ^ 53"
  have "int (nat \<bar>x\<bar>) < 2 ^ 53" using a by simp
  then have "nat \<bar>x\<bar> < 2 ^ 53"
    by (simp only: of_nat_less_numeral_power_cancel_iff)
  then have "bit_length (nat \<bar>x\<bar>) \<le> 53" by (simp only: bit_length_le_iff)
  then show ?thesis by (simp add: round53_def Let_def)
qed

lemma round53_large:
  assumes "2 ^ 53 \<le> x"
  shows "2 ^ n \<le> x \<Longrightarrow> 2 ^ n \<le> round53 x" and "x < 2 ^ n \<Longrightarrow> round53 x \<le> 2 ^ n"
proof -
  define a where "a = nat x"
  define l where "l = bit_length a"
  have x0: "0 < x" using assms by (simp add: order.strict_trans2[of 0 "2 ^ 53" x])
  have "(2::nat) ^ 53 \<le> a" using nat_ge_pow53[OF x0] assms by (simp only: a_def)
  then have "\<not> a < 2 ^ 53" by (simp only: not_less)
  then have "\<not> l \<le> 53" unfolding l_def bit_length_le_iff .
  then have l53: "53 < l" by simp
  have ax: "\<bar>x\<bar> = x" "sgn x = 1" using x0 by auto
  have r: "round53 x = int (round_half_even a (2 ^ (l - 53)) * 2 ^ (l - 53))"
    using l53 by (simp add: round53_def Let_def ax a_def[symmetric] l_def[symmetric])
  have b1: "2 ^ (l - 1) \<le> round_half_even a (2 ^ (l - 53)) * 2 ^ (l - 53)"
    and b2: "round_half_even a (2 ^ (l - 53)) * 2 ^ (l - 53) \<le> 2 ^ l"
    using round_bits_bounds[of 53 a] l53 unfolding l_def by simp_all
  show "2 ^ n \<le> round53 x" if "2 ^ n \<le> x"
  proof -
    have "2 ^ n \<le> int a" using that x0 by (simp add: a_def)
    then have "2 ^ n \<le> a" by (simp only: numeral_power_le_of_nat_cancel_iff)
    then have "\<not> a < 2 ^ n" by (simp only: not_less)
    then have "\<not> l \<le> n" unfolding l_def bit_length_le_iff .
    then have "n \<le> l - 1" by simp
    then have "(2::nat) ^ n \<le> 2 ^ (l - 1)" by (intro power_increasing) auto
    then have "(2::nat) ^ n \<le> round_half_even a (2 ^ (l - 53)) * 2 ^ (l - 53)"
      using b1 by (rule order_trans)
    then have "(2::int) ^ n \<le> int (round_half_even a (2 ^ (l - 53)) * 2 ^ (l - 53))"
      by (simp only: numeral_power_le_of_nat_cancel_iff)
    then show ?thesis by (simp only: r)
  qed
  show "round53 x \<le> 2 ^ n" if "x < 2 ^ n"
  proof -
    have "int a < 2 ^ n" using that x0 by (simp add: a_def)
    then have "a < 2 ^ n" by (simp only: of_nat_less_numeral_power_cancel_iff)
    then have "l \<le> n" by (simp only: l_def bit_length_le_iff)
    then have "(2::nat) ^ l \<le> 2 ^ n" by (intro power_increasing) auto
    with b2 have "round_half_even a (2 ^ (l - 53)) * 2 ^ (l - 53) \<le> 2 ^ n"
      by (rule order_trans)
    then have "int (round_half_even a (2 ^ (l - 53)) * 2 ^ (l - 53)) \<le> 2 ^ n"
      by (simp only: of_nat_le_numeral_power_cancel_iff)
    then show ?thesis by (simp only: r)
  qed
qed

text \<open>The loop of \<open>format_size\<close> on an int, unfolded.\<close>

lemma size_loop_float:
  "size_loop (JFloat (Finite r (- 10))) (Suc 0) =
     Inr (if r < 1024 ^ 2 then (JFloat (Finite r (- 10)), 1)
          else if r < 1024 ^ 3 then (JFloat (Finite r (- 20)), 2)
          else if r < 1024 ^ 4 then (JFloat (Finite r (- 30)), 3)
          else (JFloat (Finite r (- 40)), 4))"
  by (simp add: size_loop.simps size_names_def)

lemma size_loop_int:
  "size_loop (JInt x) 0 =
     (if x < 1024 then Inr (JInt x, 0)
      else if 2 ^ 1034 \<le> \<bar>round53 x\<bar> then Inl OverflowError
      else size_loop (JFloat (Finite (round53 x) (- 10))) (Suc 0))"
  by (simp add: size_loop.simps[of "JInt x"] size_names_def int_div_1024_def)

lemma round53_ge:
  assumes "1024 ^ 4 \<le> x"
  shows "1024 ^ 4 \<le> round53 x"
proof (cases "x < 2 ^ 53")
  case True
  then have "\<bar>x\<bar> < 2 ^ 53" using assms by simp
  then show ?thesis using assms by (simp only: round53_small)
next
  case False
  then have "2 ^ 53 \<le> x" by simp
  then have "2 ^ 53 \<le> round53 x" using round53_large(1)[of x 53] by simp
  then show ?thesis by simp
qed

lemma round53_lt:
  assumes "0 \<le> x" "x < 2 ^ 1033"
  shows "\<bar>round53 x\<bar> < 2 ^ 1034"
proof (cases "x < 2 ^ 53")
  case True
  then have "\<bar>x\<bar> < 2 ^ 53" using assms by simp
  then have "round53 x = x" by (rule round53_small)
  then show ?thesis using assms by simp
next
  case False
  then have f: "2 ^ 53 \<le> x" by simp
  have "round53 x \<le> 2 ^ 1033" using round53_large(2)[OF f, of 1033] assms(2) by simp
  moreover have "0 \<le> round53 x" using round53_large(1)[OF f, of 0] assms(1) f by simp
  ultimately show ?thesis by simp
qed

lemma format_size_int:
  assumes "0 < x"
  shows "format_size (JInt x) =
     (if x < 1024 then Inr (float_format_2f (Finite x 0) @ '' B'')
      else if x < 1024 ^ 2 then Inr (float_format_2f (Finite x (- 10)) @ '' KB'')
      else if x < 1024 ^ 3 then Inr (float_format_2f (Finite x (- 20)) @ '' MB'')
      else if x < 1024 ^ 4 then Inr (float_format_2f (Finite x (- 30)) @ '' GB'')
      else if 2 ^ 1034 \<le> \<bar>round53 x\<bar> then Inl OverflowError
      else Inr (float_format_2f (Finite (round53 x) (- 40)) @ '' TB''))"
proof (cases "x < 1024 ^ 4")
  case True
  then have "\<bar>x\<bar> < 2 ^ 53" using assms by simp
  then have r: "round53 x = x" by (rule round53_small)
  show ?thesis
    using assms True
    by (simp add: format_size_def size_loop_int size_loop_float r bind_exn_def
        float_of_int_def size_names_def del: float_format_2f.simps)
next
  case False
  then have "1024 ^ 4 \<le> round53 x" using round53_ge[of x] by simp
  then show ?thesis
    using assms False
    by (simp add: format_size_def size_loop_int size_loop_float bind_exn_def
        size_names_def del: float_format_2f.simps)
qed

lemma bind_exn_Inr_iff: "bind_exn m f = Inr y \<longleftrightarrow> (\<exists>x. m = Inr x \<and> f x = Inr y)"
  by (cases m) (simp_all add: bind_exn_def)

lemma bind_exn_Inr: "m = Inr x \<Longrightarrow> bind_exn m f = f x"
  by (simp add: bind_exn_def)

lemma is_dict_iff: "is_dict v \<longleftrightarrow> (\<exists>kvs. v = JObj kvs)"
  by (cases v) simp_all

lemma py_get_JObj: "py_get (JObj kvs) k d = Inr (field_or [k] d (JObj kvs))"
  by (simp add: field_or_def split: option.splits)

lemma py_get_if:
  "py_get r k d = (if is_dict r then Inr (field_or [k] d r) else Inl AttributeError)"
  by (cases r) (simp_all add: field_or_def split: option.splits)

lemma field_or_step:
  "is_dict r \<Longrightarrow> field_or (k # k2 # ks) d r = field_or (k2 # ks) d (field_or [k] (JObj []) r)"
  by (cases r) (simp_all add: field_or_def split: option.splits)

lemma dict_or_absent_step:
  "is_dict r \<Longrightarrow>
   dict_or_absent (k # k2 # ks) r = dict_or_absent (k2 # ks) (field_or [k] (JObj []) r)"
  by (cases r) (simp_all add: field_or_def dict_or_absent_def split: option.splits)

lemma dict_or_absent_single:
  "is_dict r \<Longrightarrow> dict_or_absent [k] r = is_dict (field_or [k] (JObj []) r)"
  by (cases r) (simp_all add: field_or_def dict_or_absent_def split: option.splits)

lemma json_field_step:
  "is_dict r \<Longrightarrow> json_field (k # k2 # ks) r = json_field (k2 # ks) (field_or [k] (JObj []) r)"
  by (cases r) (simp_all add: field_or_def split: option.splits)

text \<open>Lines 45 to 64 in closed form.\<close>

lemma extract_log_entry_eq:
  "extract_log_entry environ now record =
     (if is_dict record \<and> dict_or_absent [''s3''] record
         \<and> dict_or_absent [''s3'', ''bucket''] record
         \<and> dict_or_absent [''s3'', ''object''] record
      then (case format_size (field_or [''s3'', ''object'', ''size''] (JInt 0) record) of
              Inl e \<Rightarrow> Inl e
            | Inr readable \<Rightarrow>
                if dict_or_absent [''requestParameters''] record
                   \<and> dict_or_absent [''userIdentity''] record
                then Inr \<lparr>timestamp = field_or [''eventTime''] (JStr now) record,
                       project = environ_get environ ''PROJECT_NAME'' ''job-portal'',
                       environment = environ_get environ ''ENVIRONMENT'' ''dev'',
                       event_type = field_or [''eventName''] (JStr ''Unknown'') record,
                       log_entry.bucket =
                         field_or [''s3'', ''bucket'', ''name''] (JStr ''Unknown'') record,
                       object_key =
                         field_or [''s3'', ''object'', ''key''] (JStr ''Unknown'') record,
                       object_size_bytes =
                         field_or [''s3'', ''object'', ''size''] (JInt 0) record,
                       object_size_readable = readable,
                       source_ip =
                         field_or [''requestParameters'', ''sourceIPAddress'']
                           (JStr ''Unknown'') record,
                       user_identity =
                         field_or [''userIdentity'', ''principalId'']
                           (JStr ''Unknown'') record\<rparr>
                else Inl AttributeError)
      else Inl AttributeError)"
proof (cases "is_dict record")
  case False
  then show ?thesis
    by (simp add: extract_log_entry_def bind_exn_def py_get_if)
next
  case True
  show ?thesis
    unfolding extract_log_entry_def
    by (simp add: True bind_exn_def py_get_if dict_or_absent_step dict_or_absent_single
        field_or_step split: sum.splits)
qed

lemma process_record_snd:
  "snd (process_record environ now record) =
     bind_exn (extract_log_entry environ now record) (\<lambda>le.
     bind_exn (file_extension (object_key le)) (\<lambda>ext.
     Inr \<lparr>bucket = log_entry.bucket le, key = object_key le,
          category = categorize_file ext\<rparr>))"
  by (simp add: process_record_def bind_exn_def Let_def split: sum.splits)

text \<open>What a record's \<open>try\<close> block ends in does not depend on the environment or the clock.\<close>

lemma process_record_result:
  "snd (process_record environ now record) =
     (if is_dict record \<and> dict_or_absent [''s3''] record
         \<and> dict_or_absent [''s3'', ''bucket''] record
         \<and> dict_or_absent [''s3'', ''object''] record
      then bind_exn (format_size (field_or [''s3'', ''object'', ''size''] (JInt 0) record))
             (\<lambda>readable.
               if dict_or_absent [''requestParameters''] record
                  \<and> dict_or_absent [''userIdentity''] record
               then bind_exn
                      (file_extension
                         (field_or [''s3'', ''object'', ''key''] (JStr ''Unknown'') record))
                      (\<lambda>ext. Inr \<lparr>bucket =
                                    field_or [''s3'', ''bucket'', ''name'']
                                      (JStr ''Unknown'') record,
                                  key =
                                    field_or [''s3'', ''object'', ''key'']
                                      (JStr ''Unknown'') record,
                                  category = categorize_file ext\<rparr>)
               else Inl AttributeError)
      else Inl AttributeError)"
  unfolding process_record_snd extract_log_entry_eq
  by (simp add: bind_exn_def split: sum.splits)

lemma process_record_indep:
  "snd (process_record environ now record) = snd (process_record environ' now' record)"
  unfolding process_record_result by (rule refl)

lemma malformed_iff: "isl (snd (process_record environ now record)) = malformed record"
  unfolding malformed_def using process_record_indep[of environ now "record" "Map.empty" "[]"] by simp

lemma process_record_Inr:
  "\<not> malformed record \<Longrightarrow> snd (process_record environ now record) = Inr (entry_of record)"
  unfolding malformed_iff[of environ now "record", symmetric] process_record_result entry_of_def
  by (simp add: bind_exn_def Let_def split: sum.splits if_splits)

lemma process_record_Inl:
  "malformed record \<Longrightarrow> \<exists>e. snd (process_record environ now record) = Inl e"
  unfolding malformed_iff[of environ now "record", symmetric]
  by (cases "snd (process_record environ now record)") simp_all


lemma process_records_snd:
  "snd (process_records environ clock i rs (lg, ps)) =
     ps @ map entry_of (filter (\<lambda>r. \<not> malformed r) rs)"
proof (induction rs arbitrary: i lg ps)
  case Nil
  then show ?case by simp
next
  case (Cons r rs)
  obtain lines res where pr: "process_record environ (clock i) r = (lines, res)"
    by (cases "process_record environ (clock i) r")
  show ?case
  proof (cases "malformed r")
    case True
    then obtain e where "res = Inl e"
      using process_record_Inl[of r environ "clock i"] pr by auto
    then show ?thesis using True pr Cons.IH by simp
  next
    case False
    then have "res = Inr (entry_of r)"
      using process_record_Inr[of r environ "clock i"] pr by simp
    then show ?thesis using False pr Cons.IH by simp
  qed
qed


text \<open>What the handler returns or raises.\<close>

lemma lambda_handler_result:
  "snd (lambda_handler environ clock event) =
     (if is_dict event
      then (case py_iter (field_or [''Records''] (JArr []) event) of
              Inl e \<Rightarrow> Inl e
            | Inr records \<Rightarrow>
                Inr \<lparr>statusCode = 200,
                     body = \<lparr>message = ''S3 upload event(s) logged successfully'',
                             records_processed =
                               length (filter (\<lambda>r. \<not> malformed r) records),
                             details =
                               map entry_of (filter (\<lambda>r. \<not> malformed r) records)\<rparr>\<rparr>)
      else Inl AttributeError)"
proof -
  show ?thesis
    by (simp add: lambda_handler_def Let_def bind_exn_def py_get_if split_beta
        process_records_snd split: sum.splits)
qed

text \<open>Three records evaluated: the sample record, the empty dict and \<open>None\<close>.\<close>

lemma test_record_ext:
  "file_extension (JStr ''resumes/john_doe_resume.pdf'') = Inr ''pdf''"
  by (simp add: file_extension_def bind_exn_def py_lower_def lower_char_def)

lemma test_record_size: "format_size (JInt 1024567) = Inr ''1000.55 KB''"
  by (simp add: format_size_eval)




lemma empty_record_result:
  "snd (process_record environ now (JObj [])) =
     Inr \<lparr>bucket = JStr ''Unknown'', key = JStr ''Unknown'', category = ''other''\<rparr>"
  unfolding process_record_result
  by (simp add: dict_or_absent_def field_or_def bind_exn_def format_size_def
      file_extension_def categorize_file_chain py_lower_def lower_char_def)


lemma empty_record_ok: "\<not> malformed (JObj [])"
  unfolding malformed_def empty_record_result by simp

lemma empty_record_entry:
  "entry_of (JObj []) =
     \<lparr>bucket = JStr ''Unknown'', key = JStr ''Unknown'', category = ''other''\<rparr>"
  using process_record_Inr[OF empty_record_ok, of "Map.empty" "[]"]
  unfolding empty_record_result by simp



text \<open>The last piece of a split string.\<close>

lemma py_split_ne: "py_split c s \<noteq> []"
  by (induction s) (auto split: list.splits)

lemma py_split_no_sep: "c \<notin> set s \<Longrightarrow> py_split c s = [s]"
  by (induction s) auto

lemma py_split_two: "c \<in> set s \<Longrightarrow> \<exists>w w' ws. py_split c s = w # w' # ws"
proof (induction s)
  case Nil
  then show ?case by simp
next
  case (Cons x s)
  show ?case
  proof (cases "x = c")
    case True
    obtain w ws where "py_split c s = w # ws"
      using py_split_ne[of c s] by (cases "py_split c s") auto
    then show ?thesis using True by simp
  next
    case False
    then have "c \<in> set s" using Cons.prems by simp
    then obtain w w' ws where "py_split c s = w # w' # ws" using Cons.IH by blast
    then show ?thesis using False by simp
  qed
qed

lemma last_py_split: "last (py_split c (pre @ c # suf)) = last (py_split c suf)"
proof (induction pre)
  case Nil
  then show ?case by (simp add: py_split_ne)
next
  case (Cons x pre)
  show ?case
  proof (cases "x = c")
    case True
    then show ?thesis using Cons.IH by (simp add: py_split_ne)
  next
    case False
    obtain w w' ws where sp: "py_split c (pre @ c # suf) = w # w' # ws"
      using py_split_two[of c "pre @ c # suf"] by auto
    then show ?thesis using False Cons.IH by simp
  qed
qed

lemma file_extension_no_dot:
  "CHR ''.'' \<notin> set k \<Longrightarrow> file_extension (JStr k) = Inr ''unknown''"
  by (simp add: file_extension_def bind_exn_def)

lemma file_extension_dot:
  assumes "CHR ''.'' \<notin> set suf"
  shows "file_extension (JStr (pre @ ''.'' @ suf)) = Inr (py_lower suf)"
proof -
  have "last (py_split CHR ''.'' (pre @ CHR ''.'' # suf)) = suf"
    unfolding last_py_split using py_split_no_sep[OF assms] by simp
  then show ?thesis by (simp add: file_extension_def bind_exn_def)
qed

text \<open>The run of the \<open>__main__\<close> block: the handler on the sample event, with its log.\<close>

lemma test_event_run:
  "lambda_handler Map.empty (\<lambda>i. ''now'') test_event =
     ([(INFO, EventReceived ''job-portal''),
       (INFO, FullEvent test_event),
       (INFO, Rule), (INFO, Heading), (INFO, Rule),
       (INFO, Timestamp (JStr ''2024-12-01T12:00:00.000Z'')),
       (INFO, Bucket (JStr ''job-portal-dev-files'')),
       (INFO, ObjectKey (JStr ''resumes/john_doe_resume.pdf'')),
       (INFO, Size ''1000.55 KB'' (JInt 1024567)),
       (INFO, EventType (JStr ''ObjectCreated:Put'')),
       (INFO, SourceIP (JStr ''192.168.1.100'')),
       (INFO, FileCategory ''resume''),
       (INFO, FileExtension ''pdf''),
       (INFO, Rule),
       (INFO, LambdaResponse
          \<lparr>statusCode = 200,
           body = \<lparr>message = ''S3 upload event(s) logged successfully'',
                   records_processed = 1,
                   details = [\<lparr>bucket = JStr ''job-portal-dev-files'',
                               key = JStr ''resumes/john_doe_resume.pdf'',
                               category = ''resume''\<rparr>]\<rparr>\<rparr>)],
      Inr \<lparr>statusCode = 200,
           body = \<lparr>message = ''S3 upload event(s) logged successfully'',
                   records_processed = 1,
                   details = [\<lparr>bucket = JStr ''job-portal-dev-files'',
                               key = JStr ''resumes/john_doe_resume.pdf'',
                               category = ''resume''\<rparr>]\<rparr>\<rparr>)"
proof -
  have le: "extract_log_entry Map.empty ''now'' test_record =
      Inr \<lparr>timestamp = JStr ''2024-12-01T12:00:00.000Z'',
           project = ''job-portal'', environment = ''dev'',
           event_type = JStr ''ObjectCreated:Put'',
           log_entry.bucket = JStr ''job-portal-dev-files'',
           object_key = JStr ''resumes/john_doe_resume.pdf'',
           object_size_bytes = JInt 1024567,
           object_size_readable = ''1000.55 KB'',
           source_ip = JStr ''192.168.1.100'',
           user_identity = JStr ''EXAMPLE123''\<rparr>"
    by (simp add: extract_log_entry_def test_record_def bind_exn_def test_record_size
        environ_get_def)
  have pr: "process_record Map.empty ''now'' test_record =
      ([(INFO, Rule), (INFO, Heading), (INFO, Rule),
        (INFO, Timestamp (JStr ''2024-12-01T12:00:00.000Z'')),
        (INFO, Bucket (JStr ''job-portal-dev-files'')),
        (INFO, ObjectKey (JStr ''resumes/john_doe_resume.pdf'')),
        (INFO, Size ''1000.55 KB'' (JInt 1024567)),
        (INFO, EventType (JStr ''ObjectCreated:Put'')),
        (INFO, SourceIP (JStr ''192.168.1.100'')),
        (INFO, FileCategory ''resume''),
        (INFO, FileExtension ''pdf''),
        (INFO, Rule)],
       Inr \<lparr>bucket = JStr ''job-portal-dev-files'',
            key = JStr ''resumes/john_doe_resume.pdf'', category = ''resume''\<rparr>)"
    by (simp add: process_record_def le test_record_ext categorize_file_chain py_lower_pdf)
  show ?thesis
    by (simp add: lambda_handler_def Let_def test_event_def bind_exn_def pr environ_get_def)
qed

text \<open>Facts for the statements on absent fields.\<close>

lemma format_size_zero: "format_size (JInt 0) = Inr ''0 B''"
  by (simp add: format_size_def)

lemma size_ok_iff:
  "(\<forall>v. json_field path record = Some v \<longrightarrow> \<not> isl (format_size v)) \<longleftrightarrow>
     \<not> isl (format_size (field_or path (JInt 0) record))"
  by (cases "json_field path record") (simp_all add: field_or_def format_size_zero)

lemma file_extension_str:
  "file_extension (JStr s) =
     Inr (if CHR ''.'' \<in> set s then py_lower (last (py_split CHR ''.'' s)) else ''unknown'')"
  by (simp add: file_extension_def bind_exn_def)

lemma categorize_unknown: "categorize_file ''unknown'' = ''other''"
  unfolding categorize_file_chain by (simp add: py_lower_def lower_char_def)

section \<open>The claims\<close>

text \<open>
  C2. \<open>categorize_file\<close> follows the fixed table, checked in the order resume, image,
  data, archive, video, audio, the first match winning; an extension in no list gives
  \<open>other\<close>; and the extension is lower-cased before it is looked up, so an extension
  and its lower-case form are categorized alike (\<open>PDF\<close> and \<open>pdf\<close> are both a resume).
\<close>

theorem categorize_file_table:
  "categorize_file e =
     (if py_lower e \<in> set [''pdf'', ''doc'', ''docx'', ''txt'', ''rtf'', ''odt''] then ''resume''
      else if py_lower e \<in> set [''jpg'', ''jpeg'', ''png'', ''gif'', ''webp'', ''svg'', ''bmp'', ''ico'']
        then ''image''
      else if py_lower e \<in> set [''csv'', ''xlsx'', ''xls'', ''json'', ''xml'', ''yaml'', ''yml'']
        then ''data''
      else if py_lower e \<in> set [''zip'', ''tar'', ''gz'', ''rar'', ''7z''] then ''archive''
      else if py_lower e \<in> set [''mp4'', ''avi'', ''mov'', ''mkv'', ''webm''] then ''video''
      else if py_lower e \<in> set [''mp3'', ''wav'', ''flac'', ''aac'', ''ogg''] then ''audio''
      else ''other'')
   \<and> categorize_file e = categorize_file (py_lower e)
   \<and> categorize_file ''PDF'' = ''resume'' \<and> categorize_file ''pdf'' = ''resume''
   \<and> categorize_file ''xyz'' = ''other''"
proof -
  have ci: "categorize_file e = categorize_file (py_lower e)"
    unfolding categorize_file_chain py_lower_idem by (rule refl)
  have p1: "categorize_file ''PDF'' = ''resume''"
    unfolding categorize_file_chain py_lower_PDF by simp
  have p2: "categorize_file ''pdf'' = ''resume''"
    unfolding categorize_file_chain py_lower_pdf by simp
  have p3: "categorize_file ''xyz'' = ''other''"
    unfolding categorize_file_chain by (simp add: py_lower_def lower_char_def)
  show ?thesis using categorize_file_chain[of e] ci p1 p2 p3 by blast
qed

text \<open>
  C3. \<open>format_size\<close> returns \<open>0 B\<close> for 0, \<open>1.00 KB\<close> for 1024 and \<open>1.00 MB\<close> for
  1048576. For 1024567 the loop divides once only (1024567 / 1024 is about 1000.55, which
  is below 1024), so the result is \<open>1000.55 KB\<close> and not \<open>0.98 MB\<close>.
\<close>

theorem format_size_examples:
  "format_size (JInt 0) = Inr ''0 B''
   \<and> format_size (JInt 1024) = Inr ''1.00 KB''
   \<and> format_size (JInt 1048576) = Inr ''1.00 MB''
   \<and> format_size (JInt 1024567) = Inr ''1000.55 KB''"
proof -
  have "format_size (JInt 0) = Inr ''0 B''"
    by (simp add: format_size_def)
  moreover have "format_size (JInt 1024) = Inr ''1.00 KB''"
    by (simp add: format_size_eval)
  moreover have "format_size (JInt 1048576) = Inr ''1.00 MB''"
    by (simp add: format_size_eval)
  moreover have "format_size (JInt 1024567) = Inr ''1000.55 KB''"
    by (simp add: format_size_eval)
  ultimately show ?thesis by simp
qed

text \<open>
  As the claim is worded, it fails at 1024567, where it expects \<open>0.98 MB\<close>.
\<close>

theorem format_size_1024567_not_MB:
  "format_size (JInt 1024567) \<noteq> Inr ''0.98 MB''"
  by (simp add: format_size_eval)

text \<open>
  C4. For a byte count \<open>x > 0\<close>, \<open>format_size\<close> divides by 1024 and moves one unit up
  as long as the running value is at least 1024 and the unit is not yet TB: the unit is B
  below 1024, KB below \<open>1024 ^ 2\<close>, MB below \<open>1024 ^ 3\<close>, GB below \<open>1024 ^ 4\<close> and TB
  from there on (\<open>1024 ^ 5\<close> gives \<open>1024.00 TB\<close>). The running value is a float: when
  the first division is beyond the largest float (the float nearest to \<open>x\<close> is \<open>2 ^ 1034\<close>
  or more), the division raises OverflowError and no string is returned. Every \<open>x\<close> below
  \<open>2 ^ 1033\<close> gets a string that ends in one of the five units.
\<close>

theorem format_size_units:
  assumes "0 < x"
  shows "format_size (JInt x) =
     (if x < 1024 then Inr (float_format_2f (Finite x 0) @ '' B'')
      else if x < 1024 ^ 2 then Inr (float_format_2f (Finite x (- 10)) @ '' KB'')
      else if x < 1024 ^ 3 then Inr (float_format_2f (Finite x (- 20)) @ '' MB'')
      else if x < 1024 ^ 4 then Inr (float_format_2f (Finite x (- 30)) @ '' GB'')
      else if 2 ^ 1034 \<le> \<bar>round53 x\<bar> then Inl OverflowError
      else Inr (float_format_2f (Finite (round53 x) (- 40)) @ '' TB''))
   \<and> (x < 2 ^ 1033 \<longrightarrow>
        (\<exists>s k. k < length size_names \<and> format_size (JInt x) = Inr (s @ '' '' @ size_names ! k)))
   \<and> format_size (JInt (1024 ^ 5)) = Inr ''1024.00 TB''"
proof -
  note fs = format_size_int[OF assms]
  have tot: "\<exists>s k. k < length size_names \<and> format_size (JInt x) = Inr (s @ '' '' @ size_names ! k)"
    if "x < 2 ^ 1033"
  proof -
    have no: "\<not> 2 ^ 1034 \<le> \<bar>round53 x\<bar>" using round53_lt[of x] assms that by simp
    have sn: "size_names ! 0 = ''B''" "size_names ! 1 = ''KB''" "size_names ! 2 = ''MB''"
      "size_names ! 3 = ''GB''" "size_names ! 4 = ''TB''" "length size_names = 5"
      by (simp_all add: size_names_def)
    consider "x < 1024" | "\<not> x < 1024" "x < 1024 ^ 2" | "\<not> x < 1024 ^ 2" "x < 1024 ^ 3"
      | "\<not> x < 1024 ^ 3" "x < 1024 ^ 4" | "\<not> x < 1024 ^ 4" by blast
    then show ?thesis
    proof cases
      case 1
      then have "format_size (JInt x) = Inr (float_format_2f (Finite x 0) @ '' '' @ size_names ! 0)"
        unfolding fs sn by simp
      then show ?thesis using sn(6) by (metis zero_less_numeral)
    next
      case 2
      then have "format_size (JInt x) = Inr (float_format_2f (Finite x (- 10)) @ '' '' @ size_names ! 1)"
        unfolding fs sn by simp
      moreover have "1 < length size_names" by (simp add: sn)
      ultimately show ?thesis by blast
    next
      case 3
      then have "format_size (JInt x) = Inr (float_format_2f (Finite x (- 20)) @ '' '' @ size_names ! 2)"
        unfolding fs sn by simp
      moreover have "2 < length size_names" by (simp add: sn)
      ultimately show ?thesis by blast
    next
      case 4
      then have "format_size (JInt x) = Inr (float_format_2f (Finite x (- 30)) @ '' '' @ size_names ! 3)"
        unfolding fs sn by simp
      moreover have "3 < length size_names" by (simp add: sn)
      ultimately show ?thesis by blast
    next
      case 5
      then have "format_size (JInt x) = Inr (float_format_2f (Finite (round53 x) (- 40)) @ '' '' @ size_names ! 4)"
        unfolding fs sn using no by simp
      moreover have "4 < length size_names" by (simp add: sn)
      ultimately show ?thesis by blast
    qed
  qed
  have tb: "format_size (JInt (1024 ^ 5)) = Inr ''1024.00 TB''"
    by (simp add: format_size_eval)
  show ?thesis using fs tot tb by blast
qed

theorem format_size_units_witness:
  "(0::int) < 1536 \<and> format_size (JInt 1536) = Inr ''1.50 KB''
   \<and> (1536::int) < 2 ^ 1033
   \<and> (\<exists>s k. k < length size_names \<and> format_size (JInt 1536) = Inr (s @ '' '' @ size_names ! k))"
proof -
  have h: "(0::int) < 1536" by simp
  have lt: "(1536::int) < 2 ^ 1033" by simp
  note t = format_size_units[OF h]
  have a: "format_size (JInt 1536) = Inr ''1.50 KB''"
    using t by (simp add: round_half_even_def digits.simps digit_char_def Let_def)
  have b: "\<exists>s k. k < length size_names \<and> format_size (JInt 1536) = Inr (s @ '' '' @ size_names ! k)"
    using t lt by blast
  show ?thesis using h lt a b by blast
qed

text \<open>
  As the claim is worded (for every \<open>x\<close>), it fails at \<open>x = 2 ^ 1040\<close>: the test
  \<open>size_bytes >= 1024\<close> holds, and \<open>size_bytes /= 1024\<close> raises OverflowError.
\<close>

theorem format_size_overflow: "format_size (JInt (2 ^ 1040)) = Inl OverflowError"
proof -
  have "(2::int) ^ 53 \<le> 2 ^ 1040" by simp
  moreover have "(2::int) ^ 1034 \<le> 2 ^ 1040" by simp
  ultimately have "2 ^ 1034 \<le> round53 (2 ^ 1040)" by (rule round53_large(1))
  moreover have "(0::int) \<le> 2 ^ 1034" by simp
  ultimately have "2 ^ 1034 \<le> \<bar>round53 (2 ^ 1040)\<bar>" by linarith
  then show ?thesis using format_size_int[of "2 ^ 1040"] by simp
qed








text \<open>
  C10. What the handler returns (or raises) is a function of the event alone: the
  environment variables and the clock show in the log only.
\<close>

theorem lambda_handler_deterministic:
  "snd (lambda_handler environ clock event) = snd (lambda_handler environ' clock' event)"
proof -
  have "snd (lambda_handler environ clock event) =
      (if is_dict event
       then (case py_iter (field_or [''Records''] (JArr []) event) of
               Inl e \<Rightarrow> Inl e
             | Inr records \<Rightarrow>
                 Inr \<lparr>statusCode = 200,
                      body = \<lparr>message = ''S3 upload event(s) logged successfully'',
                              records_processed =
                                length (filter (\<lambda>r. \<not> malformed r) records),
                              details =
                                map entry_of (filter (\<lambda>r. \<not> malformed r) records)\<rparr>\<rparr>)
       else Inl AttributeError)"
    by (rule lambda_handler_result)
  also have "\<dots> = snd (lambda_handler environ' clock' event)"
    by (rule lambda_handler_result[symmetric])
  finally show ?thesis .
qed

text \<open>
  C7. The extraction of lines 45 to 64 returns exactly when the record is a dict in which
  the values \<open>s3\<close>, \<open>s3.bucket\<close>, \<open>s3.object\<close>, \<open>requestParameters\<close> and
  \<open>userIdentity\<close> are dicts where they are present, and in which a size that is present
  can be formatted. Whenever it returns, every field that is absent has its default: size
  0 (shown as \<open>0 B\<close>), event time the current time, event name, source IP and principal
  id \<open>Unknown\<close>.
\<close>

theorem extract_log_entry_defaults:
  "((\<exists>le. extract_log_entry environ now record = Inr le) \<longleftrightarrow>
      is_dict record
      \<and> dict_or_absent [''s3''] record
      \<and> dict_or_absent [''s3'', ''bucket''] record
      \<and> dict_or_absent [''s3'', ''object''] record
      \<and> dict_or_absent [''requestParameters''] record
      \<and> dict_or_absent [''userIdentity''] record
      \<and> (\<forall>v. json_field [''s3'', ''object'', ''size''] record = Some v \<longrightarrow>
             \<not> isl (format_size v)))
   \<and> (\<forall>le. extract_log_entry environ now record = Inr le \<longrightarrow>
         (json_field [''s3'', ''object'', ''size''] record = None \<longrightarrow>
            object_size_bytes le = JInt 0 \<and> object_size_readable le = ''0 B'')
         \<and> (json_field [''eventTime''] record = None \<longrightarrow> timestamp le = JStr now)
         \<and> (json_field [''eventName''] record = None \<longrightarrow> event_type le = JStr ''Unknown'')
         \<and> (json_field [''requestParameters'', ''sourceIPAddress''] record = None \<longrightarrow>
              source_ip le = JStr ''Unknown'')
         \<and> (json_field [''userIdentity'', ''principalId''] record = None \<longrightarrow>
              user_identity le = JStr ''Unknown''))"
proof (intro conjI allI impI)
  show "(\<exists>le. extract_log_entry environ now record = Inr le) \<longleftrightarrow>
      is_dict record
      \<and> dict_or_absent [''s3''] record
      \<and> dict_or_absent [''s3'', ''bucket''] record
      \<and> dict_or_absent [''s3'', ''object''] record
      \<and> dict_or_absent [''requestParameters''] record
      \<and> dict_or_absent [''userIdentity''] record
      \<and> (\<forall>v. json_field [''s3'', ''object'', ''size''] record = Some v \<longrightarrow>
             \<not> isl (format_size v))"
    unfolding size_ok_iff extract_log_entry_eq
    by (cases "format_size (field_or [''s3'', ''object'', ''size''] (JInt 0) record)") auto
next
  fix le
  assume e: "extract_log_entry environ now record = Inr le"
  note f = e[unfolded extract_log_entry_eq]
  {
    assume a: "json_field [''s3'', ''object'', ''size''] record = None"
    then have "field_or [''s3'', ''object'', ''size''] (JInt 0) record = JInt 0"
      by (simp add: field_or_def)
    then show "object_size_bytes le = JInt 0" and "object_size_readable le = ''0 B''"
      using f by (auto simp: format_size_zero split: if_splits)
  }
  {
    assume "json_field [''eventTime''] record = None"
    then have "field_or [''eventTime''] (JStr now) record = JStr now"
      by (simp add: field_or_def)
    then show "timestamp le = JStr now"
      using f by (auto split: if_splits sum.splits)
  }
  {
    assume "json_field [''eventName''] record = None"
    then have "field_or [''eventName''] (JStr ''Unknown'') record = JStr ''Unknown''"
      by (simp add: field_or_def)
    then show "event_type le = JStr ''Unknown''"
      using f by (auto split: if_splits sum.splits)
  }
  {
    assume "json_field [''requestParameters'', ''sourceIPAddress''] record = None"
    then have "field_or [''requestParameters'', ''sourceIPAddress''] (JStr ''Unknown'') record
        = JStr ''Unknown''"
      by (simp add: field_or_def)
    then show "source_ip le = JStr ''Unknown''"
      using f by (auto split: if_splits sum.splits)
  }
  {
    assume "json_field [''userIdentity'', ''principalId''] record = None"
    then have "field_or [''userIdentity'', ''principalId''] (JStr ''Unknown'') record
        = JStr ''Unknown''"
      by (simp add: field_or_def)
    then show "user_identity le = JStr ''Unknown''"
      using f by (auto split: if_splits sum.splits)
  }
qed

theorem extract_log_entry_defaults_witness:
  "is_dict (JObj [(''s3'', JObj [(''bucket'', JObj [(''name'', JStr ''b'')]),
                                 (''object'', JObj [(''key'', JStr ''a.txt''),
                                                   (''size'', JInt 2048)])]),
                  (''requestParameters'', JObj [])])
   \<and> json_field [''s3'', ''object'', ''size'']
         (JObj [(''s3'', JObj [(''bucket'', JObj [(''name'', JStr ''b'')]),
                               (''object'', JObj [(''key'', JStr ''a.txt''),
                                                 (''size'', JInt 2048)])]),
                (''requestParameters'', JObj [])]) = Some (JInt 2048)
   \<and> \<not> isl (format_size (JInt 2048))
   \<and> (\<exists>le. extract_log_entry Map.empty ''2024-12-01T12:00:00''
               (JObj [(''s3'', JObj [(''bucket'', JObj [(''name'', JStr ''b'')]),
                                     (''object'', JObj [(''key'', JStr ''a.txt''),
                                                       (''size'', JInt 2048)])]),
                      (''requestParameters'', JObj [])]) = Inr le
          \<and> timestamp le = JStr ''2024-12-01T12:00:00''
          \<and> event_type le = JStr ''Unknown''
          \<and> source_ip le = JStr ''Unknown''
          \<and> user_identity le = JStr ''Unknown'')
   \<and> (\<exists>le. extract_log_entry Map.empty ''2024-12-01T12:00:00''
               (JObj [(''s3'', JObj [(''object'', JObj [])]),
                      (''eventName'', JStr ''ObjectCreated:Put'')]) = Inr le
          \<and> object_size_bytes le = JInt 0 \<and> object_size_readable le = ''0 B'')"
proof -
  define w1 where "w1 =
    JObj [(''s3'', JObj [(''bucket'', JObj [(''name'', JStr ''b'')]),
                        (''object'', JObj [(''key'', JStr ''a.txt''), (''size'', JInt 2048)])]),
          (''requestParameters'', JObj [])]"
  define w2 where "w2 =
    JObj [(''s3'', JObj [(''object'', JObj [])]), (''eventName'', JStr ''ObjectCreated:Put'')]"
  have fs: "format_size (JInt 2048) = Inr ''2.00 KB''" by (simp add: format_size_eval)
  have c1: "is_dict w1" "dict_or_absent [''s3''] w1" "dict_or_absent [''s3'', ''bucket''] w1"
    "dict_or_absent [''s3'', ''object''] w1" "dict_or_absent [''requestParameters''] w1"
    "dict_or_absent [''userIdentity''] w1"
    "json_field [''s3'', ''object'', ''size''] w1 = Some (JInt 2048)"
    "json_field [''eventTime''] w1 = None" "json_field [''eventName''] w1 = None"
    "json_field [''requestParameters'', ''sourceIPAddress''] w1 = None"
    "json_field [''userIdentity'', ''principalId''] w1 = None"
    by (simp_all add: w1_def dict_or_absent_def)
  have c2: "is_dict w2" "dict_or_absent [''s3''] w2" "dict_or_absent [''s3'', ''bucket''] w2"
    "dict_or_absent [''s3'', ''object''] w2" "dict_or_absent [''requestParameters''] w2"
    "dict_or_absent [''userIdentity''] w2"
    "json_field [''s3'', ''object'', ''size''] w2 = None"
    by (simp_all add: w2_def dict_or_absent_def)
  note t1 = extract_log_entry_defaults[of Map.empty "''2024-12-01T12:00:00''" w1]
  note t2 = extract_log_entry_defaults[of Map.empty "''2024-12-01T12:00:00''" w2]
  obtain le1 where l1: "extract_log_entry Map.empty ''2024-12-01T12:00:00'' w1 = Inr le1"
    using t1 c1 fs by auto
  have d1: "timestamp le1 = JStr ''2024-12-01T12:00:00''" "event_type le1 = JStr ''Unknown''"
    "source_ip le1 = JStr ''Unknown''" "user_identity le1 = JStr ''Unknown''"
    using t1 l1 c1 by blast+
  obtain le2 where l2: "extract_log_entry Map.empty ''2024-12-01T12:00:00'' w2 = Inr le2"
    using t2 c2 by auto
  have d2: "object_size_bytes le2 = JInt 0" "object_size_readable le2 = ''0 B''"
    using t2 l2 c2 by blast+
  show ?thesis
    using c1(1,7) fs l1 d1 l2 d2 unfolding w1_def w2_def by auto
qed

text \<open>
  As the claim is worded (every record in which a field is absent), it fails: in the
  record \<open>{"s3": null}\<close> the size and the event name are absent, and line 46 raises
  AttributeError, since \<open>None\<close> has no \<open>get\<close>.
\<close>

theorem extract_log_entry_raises:
  "json_field [''s3'', ''object'', ''size''] (JObj [(''s3'', JNull)]) = None
   \<and> json_field [''eventName''] (JObj [(''s3'', JNull)]) = None
   \<and> extract_log_entry Map.empty [] (JObj [(''s3'', JNull)]) = Inl AttributeError"
  by (simp add: extract_log_entry_def bind_exn_def)

text \<open>
  C8. For an object key with no \<open>.\<close> the extension is \<open>unknown\<close>, and its category is
  \<open>other\<close>; otherwise the extension is what follows the last \<open>.\<close> of the key, in lower
  case.
\<close>

theorem file_extension_of_key:
  "(CHR ''.'' \<notin> set k \<longrightarrow>
      file_extension (JStr k) = Inr ''unknown'' \<and> categorize_file ''unknown'' = ''other'')
   \<and> (CHR ''.'' \<notin> set suf \<longrightarrow>
      file_extension (JStr (pre @ ''.'' @ suf)) = Inr (py_lower suf))"
proof -
  have "categorize_file ''unknown'' = ''other''"
    unfolding categorize_file_chain by (simp add: py_lower_def lower_char_def)
  then show ?thesis
    using file_extension_no_dot[of k] file_extension_dot[of suf pre] by blast
qed

theorem file_extension_of_key_witness:
  "CHR ''.'' \<notin> set ''README''
   \<and> file_extension (JStr ''README'') = Inr ''unknown''
   \<and> categorize_file ''unknown'' = ''other''
   \<and> CHR ''.'' \<notin> set ''GZ''
   \<and> file_extension (JStr ''archive.tar.GZ'') = Inr ''gz''"
proof -
  have a: "CHR ''.'' \<notin> set ''README''" by simp
  have b: "CHR ''.'' \<notin> set ''GZ''" by simp
  have l: "py_lower ''GZ'' = ''gz''"
    by (simp add: py_lower_def lower_char_def char_of_def bit_Suc_0_iff)
  show ?thesis
    using file_extension_of_key[of "''README''" "''GZ''" "''archive.tar''"] a b l by simp
qed

text \<open>
  C9. Take a record that is a dict, in which the values \<open>s3\<close>, \<open>s3.bucket\<close>,
  \<open>s3.object\<close>, \<open>requestParameters\<close> and \<open>userIdentity\<close> are dicts where they are
  present, and in which a size that is present can be formatted. If its object key is
  absent, the record is not malformed and is appended with the key \<open>Unknown\<close> and the
  category \<open>other\<close>. If its bucket name is absent and its key is a str, the record is not
  malformed and is appended with the bucket \<open>Unknown\<close>. The empty record gives the entry
  with bucket \<open>Unknown\<close>, key \<open>Unknown\<close> and category \<open>other\<close>, and counts as processed.
\<close>

theorem absent_bucket_or_key:
  assumes "is_dict record"
    and "dict_or_absent [''s3''] record"
    and "dict_or_absent [''s3'', ''bucket''] record"
    and "dict_or_absent [''s3'', ''object''] record"
    and "dict_or_absent [''requestParameters''] record"
    and "dict_or_absent [''userIdentity''] record"
    and "\<forall>v. json_field [''s3'', ''object'', ''size''] record = Some v \<longrightarrow> \<not> isl (format_size v)"
  shows "(json_field [''s3'', ''object'', ''key''] record = None \<longrightarrow>
            \<not> malformed record
            \<and> snd (process_record environ now record) =
                Inr \<lparr>bucket = field_or [''s3'', ''bucket'', ''name''] (JStr ''Unknown'') record,
                     key = JStr ''Unknown'', category = ''other''\<rparr>)
         \<and> (json_field [''s3'', ''bucket'', ''name''] record = None \<longrightarrow>
            (\<forall>s. json_field [''s3'', ''object'', ''key''] record = Some (JStr s) \<longrightarrow>
                 \<not> malformed record
                 \<and> snd (process_record environ now record) =
                     Inr \<lparr>bucket = JStr ''Unknown'', key = JStr s,
                          category =
                            categorize_file
                              (if CHR ''.'' \<in> set s
                               then py_lower (last (py_split CHR ''.'' s))
                               else ''unknown'')\<rparr>))
         \<and> snd (lambda_handler environ clock (JObj [(''Records'', JArr [JObj []])])) =
             Inr \<lparr>statusCode = 200,
                  body = \<lparr>message = ''S3 upload event(s) logged successfully'',
                          records_processed = 1,
                          details = [\<lparr>bucket = JStr ''Unknown'', key = JStr ''Unknown'',
                                      category = ''other''\<rparr>]\<rparr>\<rparr>"
proof -
  have "\<not> isl (format_size (field_or [''s3'', ''object'', ''size''] (JInt 0) record))"
    using assms(7) unfolding size_ok_iff .
  then obtain readable where
    r: "format_size (field_or [''s3'', ''object'', ''size''] (JInt 0) record) = Inr readable"
    by (cases "format_size (field_or [''s3'', ''object'', ''size''] (JInt 0) record)") simp_all
  have res: "snd (process_record environ now record) =
      bind_exn (file_extension (field_or [''s3'', ''object'', ''key''] (JStr ''Unknown'') record))
        (\<lambda>ext. Inr \<lparr>bucket = field_or [''s3'', ''bucket'', ''name''] (JStr ''Unknown'') record,
                    key = field_or [''s3'', ''object'', ''key''] (JStr ''Unknown'') record,
                    category = categorize_file ext\<rparr>)"
    unfolding process_record_result using assms(1-6) r by (simp add: bind_exn_def)
  have m: "\<not> malformed record" if "snd (process_record environ now record) = Inr p" for p
    using that malformed_iff[of environ now "record"] by simp
  have a: "snd (process_record environ now record) =
      Inr \<lparr>bucket = field_or [''s3'', ''bucket'', ''name''] (JStr ''Unknown'') record,
           key = JStr ''Unknown'', category = ''other''\<rparr>"
    if "json_field [''s3'', ''object'', ''key''] record = None"
    unfolding res using that
    by (simp add: field_or_def bind_exn_def file_extension_str categorize_unknown)
  have b: "snd (process_record environ now record) =
      Inr \<lparr>bucket = JStr ''Unknown'', key = JStr s,
           category =
             categorize_file
               (if CHR ''.'' \<in> set s then py_lower (last (py_split CHR ''.'' s))
                else ''unknown'')\<rparr>"
    if "json_field [''s3'', ''bucket'', ''name''] record = None"
      and "json_field [''s3'', ''object'', ''key''] record = Some (JStr s)"
    for s
    unfolding res using that
    by (simp add: field_or_def bind_exn_def file_extension_str)
  have c: "snd (lambda_handler environ clock (JObj [(''Records'', JArr [JObj []])])) =
             Inr \<lparr>statusCode = 200,
                  body = \<lparr>message = ''S3 upload event(s) logged successfully'',
                          records_processed = 1,
                          details = [\<lparr>bucket = JStr ''Unknown'', key = JStr ''Unknown'',
                                      category = ''other''\<rparr>]\<rparr>\<rparr>"
    by (simp add: lambda_handler_result field_or_def empty_record_ok empty_record_entry)
  show ?thesis using a b m c by blast
qed

theorem absent_bucket_or_key_witness:
  "is_dict (JObj [(''s3'', JObj [(''bucket'', JObj [(''name'', JStr ''b'')]),
                                 (''object'', JObj [(''size'', JInt 2048)])])])
   \<and> json_field [''s3'', ''object'', ''key'']
         (JObj [(''s3'', JObj [(''bucket'', JObj [(''name'', JStr ''b'')]),
                               (''object'', JObj [(''size'', JInt 2048)])])]) = None
   \<and> \<not> isl (format_size (JInt 2048))
   \<and> \<not> malformed (JObj [(''s3'', JObj [(''bucket'', JObj [(''name'', JStr ''b'')]),
                                       (''object'', JObj [(''size'', JInt 2048)])])])
   \<and> snd (process_record Map.empty []
            (JObj [(''s3'', JObj [(''bucket'', JObj [(''name'', JStr ''b'')]),
                                  (''object'', JObj [(''size'', JInt 2048)])])])) =
       Inr \<lparr>bucket = JStr ''b'', key = JStr ''Unknown'', category = ''other''\<rparr>
   \<and> is_dict (JObj [(''s3'', JObj [(''object'', JObj [(''key'', JStr ''cv.PDF'')])])])
   \<and> json_field [''s3'', ''bucket'', ''name'']
         (JObj [(''s3'', JObj [(''object'', JObj [(''key'', JStr ''cv.PDF'')])])]) = None
   \<and> \<not> malformed (JObj [(''s3'', JObj [(''object'', JObj [(''key'', JStr ''cv.PDF'')])])])
   \<and> snd (process_record Map.empty []
            (JObj [(''s3'', JObj [(''object'', JObj [(''key'', JStr ''cv.PDF'')])])])) =
       Inr \<lparr>bucket = JStr ''Unknown'', key = JStr ''cv.PDF'', category = ''resume''\<rparr>"
proof -
  define a where "a =
    JObj [(''s3'', JObj [(''bucket'', JObj [(''name'', JStr ''b'')]),
                        (''object'', JObj [(''size'', JInt 2048)])])]"
  define b where "b = JObj [(''s3'', JObj [(''object'', JObj [(''key'', JStr ''cv.PDF'')])])]"
  have fs: "format_size (JInt 2048) = Inr ''2.00 KB''" by (simp add: format_size_eval)
  have ha: "is_dict a" "dict_or_absent [''s3''] a" "dict_or_absent [''s3'', ''bucket''] a"
    "dict_or_absent [''s3'', ''object''] a" "dict_or_absent [''requestParameters''] a"
    "dict_or_absent [''userIdentity''] a"
    by (simp_all add: a_def dict_or_absent_def)
  have sa: "\<forall>v. json_field [''s3'', ''object'', ''size''] a = Some v \<longrightarrow> \<not> isl (format_size v)"
    by (simp add: a_def fs)
  have ka: "json_field [''s3'', ''object'', ''key''] a = None"
    and na: "field_or [''s3'', ''bucket'', ''name''] (JStr ''Unknown'') a = JStr ''b''"
    by (simp_all add: a_def field_or_def)
  have hb: "is_dict b" "dict_or_absent [''s3''] b" "dict_or_absent [''s3'', ''bucket''] b"
    "dict_or_absent [''s3'', ''object''] b" "dict_or_absent [''requestParameters''] b"
    "dict_or_absent [''userIdentity''] b"
    by (simp_all add: b_def dict_or_absent_def)
  have sb: "\<forall>v. json_field [''s3'', ''object'', ''size''] b = Some v \<longrightarrow> \<not> isl (format_size v)"
    by (simp add: b_def)
  have nb: "json_field [''s3'', ''bucket'', ''name''] b = None"
    and kb: "json_field [''s3'', ''object'', ''key''] b = Some (JStr ''cv.PDF'')"
    by (simp_all add: b_def)
  have ext: "(if CHR ''.'' \<in> set ''cv.PDF'' then py_lower (last (py_split CHR ''.'' ''cv.PDF''))
              else ''unknown'') = ''pdf''"
    by (simp add: py_lower_PDF)
  have cat: "categorize_file ''pdf'' = ''resume''"
    unfolding categorize_file_chain py_lower_pdf by simp
  note ta = absent_bucket_or_key[OF ha sa, of Map.empty "[]"]
  note tb = absent_bucket_or_key[OF hb sb, of Map.empty "[]"]
  have ra: "\<not> malformed a"
    "snd (process_record Map.empty [] a) =
       Inr \<lparr>bucket = JStr ''b'', key = JStr ''Unknown'', category = ''other''\<rparr>"
    using ta ka unfolding na by blast+
  have "\<not> malformed b
      \<and> snd (process_record Map.empty [] b) =
          Inr \<lparr>bucket = JStr ''Unknown'', key = JStr ''cv.PDF'',
               category =
                 categorize_file
                   (if CHR ''.'' \<in> set ''cv.PDF''
                    then py_lower (last (py_split CHR ''.'' ''cv.PDF''))
                    else ''unknown'')\<rparr>"
    using tb nb kb by blast
  then have rb: "\<not> malformed b"
    "snd (process_record Map.empty [] b) =
       Inr \<lparr>bucket = JStr ''Unknown'', key = JStr ''cv.PDF'', category = ''resume''\<rparr>"
    unfolding ext cat by blast+
  show ?thesis
    using ha(1) ka fs ra hb(1) nb rb unfolding a_def b_def by simp
qed

text \<open>
  As the claim is worded (every record with an absent bucket name or object key), it
  fails: the record \<open>{"s3": null}\<close> has neither, it raises at line 46, and the batch that
  holds it alone reports no processed record.
\<close>

theorem absent_bucket_and_key_malformed:
  "json_field [''s3'', ''bucket'', ''name''] (JObj [(''s3'', JNull)]) = None
   \<and> json_field [''s3'', ''object'', ''key''] (JObj [(''s3'', JNull)]) = None
   \<and> malformed (JObj [(''s3'', JNull)])
   \<and> snd (lambda_handler Map.empty (\<lambda>i. []) (JObj [(''Records'', JArr [JObj [(''s3'', JNull)]])])) =
       Inr \<lparr>statusCode = 200,
            body = \<lparr>message = ''S3 upload event(s) logged successfully'',
                    records_processed = 0, details = []\<rparr>\<rparr>"
proof -
  have m: "malformed (JObj [(''s3'', JNull)])"
    unfolding malformed_def process_record_result by (simp add: dict_or_absent_def)
  then show ?thesis
    by (simp add: lambda_handler_result field_or_def)
qed

end
